theory Spec2Isabelle
  imports Main "HOL-Library.AList"
begin

section \<open>Data model of the live-quiz server (server.js)\<close>

text \<open>
  The server keeps one process-wide \<^verbatim>\<open>Map\<close>, \<^verbatim>\<open>liveRooms\<close>, from room code to room
  object. A JavaScript \<^verbatim>\<open>Map\<close> iterates in insertion order, \<^verbatim>\<open>set\<close> on a present key
  replaces the value in place and \<^verbatim>\<open>set\<close> on an absent key appends: this is an
  association list with \<open>map_of\<close> (\<^verbatim>\<open>get\<close>), \<open>AList.update\<close> (\<^verbatim>\<open>set\<close>, and the in-place
  mutation of a stored object) and \<open>AList.delete\<close> (\<^verbatim>\<open>delete\<close>).

  A socket is compared by object identity in the source (\<^verbatim>\<open>room.hostSocket !== socket\<close>);
  the model gives every socket an identity \<open>sid\<close> and compares that. The field
  \<^verbatim>\<open>socket.user\<close> is what the authentication middleware attached to the connection.
\<close>

record user =
  uid :: string
  user_name :: string
  role :: string

record socket =
  sid :: nat
  user :: user

text \<open>Quiz content as the handlers read it: \<^verbatim>\<open>quizData.ownerUid\<close>,
  \<^verbatim>\<open>quiz.questions\<close>, \<^verbatim>\<open>question.correct\<close>.\<close>

record question =
  correct :: "int list"

record quizData =
  ownerUid :: string
  questions :: "question list"

record participant =
  name :: string
  score :: int
  answers :: "(int \<times> int) list"

record room =
  code :: string
  hostSocket :: socket
  quizId :: string
  quiz :: quizData
  currentIndex :: int
  participants :: "(string \<times> participant) list"

text \<open>
  The state the handlers read and write: the registry, and the membership of the
  transport's groups as built by the calls \<^verbatim>\<open>socket.join(name)\<close> (group name, socket).
  No handler leaves a group; what the transport itself does with the groups of a closed
  socket is outside the handlers and is not part of this state.
\<close>

record server =
  liveRooms :: "(string \<times> room) list"
  groups :: "(string \<times> nat) set"

subsection \<open>What a handler sends\<close>

text \<open>
  \<open>Callback\<close> is the acknowledgement function of the event, \<open>SocketEmit\<close> is
  \<^verbatim>\<open>socket.emit\<close> on one socket, \<open>IoTo g\<close> is \<^verbatim>\<open>io.to(g).emit\<close> (every member of the
  group) and \<open>SocketTo x g\<close> is \<^verbatim>\<open>socket.to(g).emit\<close> on socket \<open>x\<close> (every member of the
  group but \<open>x\<close>).
\<close>

datatype target = Callback nat | SocketEmit nat | IoTo string | SocketTo nat string

text \<open>The five error replies, in the order of the source:
  only teachers may create a live; quiz not found; caller is not the owner of the quiz;
  server error; invalid code or live ended.\<close>

datatype reply_error = NotTeacher | QuizNotFound | NotOwner | ServerError | InvalidCode

datatype ended_reason = Quiz_completed | Ended_by_teacher | Teacher_disconnected

datatype message =
    CallbackError reply_error
  | CallbackCode string
  | CallbackSuccess
  | LiveCreated string
  | StudentJoined string nat
  | NewQuestion "question option" int
  | LiveEnded ended_reason
  | AnswerReceived string "bool option"

text \<open>\<open>AnswerReceived n (Some b)\<close> is the payload \<^verbatim>\<open>{name, correct}\<close>,
  \<open>AnswerReceived n None\<close> the payload \<^verbatim>\<open>{name}\<close>. In \<open>NewQuestion\<close> the question is
  optional because an array read out of range gives \<^verbatim>\<open>undefined\<close>.\<close>

datatype js_error = TypeError

text \<open>A handler's outcome: the state it leaves (mutations made before a throw stay),
  what it sent, and the exception that left the handler, if any.\<close>

type_synonym outcome = "server \<times> (target \<times> message) list \<times> js_error option"

subsection \<open>JavaScript primitives\<close>

text \<open>\<^verbatim>\<open>xs[i]\<close>: \<^verbatim>\<open>undefined\<close> out of range, also for \<open>i = -1\<close>.\<close>

definition at_index :: "'a list \<Rightarrow> int \<Rightarrow> 'a option" where
  "at_index xs i = (if 0 \<le> i \<and> i < int (length xs) then Some (xs ! nat i) else None)"

text \<open>\<^verbatim>\<open>toUpperCase\<close> on bytes: an ASCII lower-case letter (97 to 122) becomes the
  letter 32 below it, which clears the bit of weight 32; every other byte is kept.
  This is \<^verbatim>\<open>toUpperCase\<close> on ASCII strings only. JavaScript also maps letters outside
  ASCII (U+017F to S, U+00DF to SS); a code with such a letter is outside this model,
  which answers as if the letter had no upper-case form. Generated codes are ASCII.\<close>

definition upper_char :: "char \<Rightarrow> char" where
  "upper_char ch =
     (if 97 \<le> (of_char ch :: nat) \<and> (of_char ch :: nat) \<le> 122
      then (case ch of Char b0 b1 b2 b3 b4 b5 b6 b7 \<Rightarrow> Char b0 b1 b2 b3 b4 False b6 b7)
      else ch)"

definition toUpperCase :: "string \<Rightarrow> string" where
  "toUpperCase s = map upper_char s"

definition substring :: "nat \<Rightarrow> nat \<Rightarrow> string \<Rightarrow> string" where
  "substring a b s = take (b - a) (drop a s)"

text \<open>\<^verbatim>\<open>generateCode\<close>; the argument is the string \<^verbatim>\<open>Math.random().toString(36)\<close>.\<close>

definition generateCode :: "string \<Rightarrow> string" where
  "generateCode r = ''QZ-'' @ toUpperCase (substring 2 8 r)"

section \<open>The event handlers\<close>

text \<open>
  Each handler is a function of the state, the socket the event arrived on (with the
  identity the authentication middleware attached) and the payload. Payloads are taken
  well-typed: \<^verbatim>\<open>code\<close> and \<^verbatim>\<open>quizId\<close> are strings, \<^verbatim>\<open>answerIndex\<close> is an integer and the
  acknowledgement callback is a function. The calls of \<^verbatim>\<open>console.log\<close> are left out.
\<close>

subsection \<open>createLive\<close>

text \<open>
  The loop \<^verbatim>\<open>do { code = generateCode(); } while (liveRooms.has(code));\<close> over the
  successive random draws. The list is the fuel: \<open>None\<close> when every draw supplied
  collides, that is when the loop has not ended within these draws.
\<close>

fun fresh_code :: "(string \<times> room) list \<Rightarrow> string list \<Rightarrow> string option" where
  "fresh_code rooms [] = None"
| "fresh_code rooms (r # rs) =
     (let c = generateCode r
      in if map_of rooms c \<noteq> None then fresh_code rooms rs else Some c)"

text \<open>What \<^verbatim>\<open>await ...doc(quizId).get()\<close> gave: the promise rejected, or a snapshot
  whose \<^verbatim>\<open>exists\<close> is false (\<open>Snapshot None\<close>) or that holds the quiz.\<close>

datatype fetched = Rejected | Snapshot "quizData option"

text \<open>
  The handler does not touch the registry before the \<^verbatim>\<open>await\<close>, and everything after it
  runs without interruption, so the state argument is the state when the fetch resolves.
  The \<^verbatim>\<open>catch\<close> block replies the server error. The result is \<open>None\<close> only when the
  code loop does not end within the draws.
\<close>

definition createLive :: "fetched \<Rightarrow> string list \<Rightarrow> server \<Rightarrow> socket \<Rightarrow> string \<Rightarrow> outcome option" where
  "createLive got draws s sock qid =
     (if role (user sock) \<noteq> ''teacher''
      then Some (s, [(Callback (sid sock), CallbackError NotTeacher)], None)
      else case got of
        Rejected \<Rightarrow> Some (s, [(Callback (sid sock), CallbackError ServerError)], None)
      | Snapshot None \<Rightarrow> Some (s, [(Callback (sid sock), CallbackError QuizNotFound)], None)
      | Snapshot (Some qd) \<Rightarrow>
          if ownerUid qd \<noteq> uid (user sock)
          then Some (s, [(Callback (sid sock), CallbackError NotOwner)], None)
          else (case fresh_code (liveRooms s) draws of
              None \<Rightarrow> None
            | Some c \<Rightarrow>
                let rm = \<lparr>code = c, hostSocket = sock, quizId = qid, quiz = qd,
                          currentIndex = 0, participants = []\<rparr>
                in Some (s\<lparr>liveRooms := AList.update c rm (liveRooms s),
                            groups := insert (c, sid sock) (groups s)\<rparr>,
                         [(Callback (sid sock), CallbackCode c),
                          (SocketEmit (sid sock), LiveCreated c)],
                         None)))"

subsection \<open>joinLive\<close>

text \<open>The lookup is by \<^verbatim>\<open>code.toUpperCase()\<close>; \<^verbatim>\<open>socket.join(code)\<close> and
  \<^verbatim>\<open>socket.to(code)\<close> take the code as submitted. \<^verbatim>\<open>participants.size\<close> is the length
  of the association list.\<close>

definition joinLive :: "server \<Rightarrow> socket \<Rightarrow> string \<Rightarrow> outcome" where
  "joinLive s sock c =
     (case map_of (liveRooms s) (toUpperCase c) of
        None \<Rightarrow> (s, [(Callback (sid sock), CallbackError InvalidCode)], None)
      | Some rm \<Rightarrow>
          let p = \<lparr>name = user_name (user sock), score = 0, answers = []\<rparr>;
              ps = AList.update (uid (user sock)) p (participants rm);
              joined = StudentJoined (name p) (length ps)
          in (s\<lparr>liveRooms := AList.update (toUpperCase c) (rm\<lparr>participants := ps\<rparr>) (liveRooms s),
                 groups := insert (c, sid sock) (groups s)\<rparr>,
              [(SocketEmit (sid (hostSocket rm)), joined),
               (SocketTo (sid sock) c, joined),
               (Callback (sid sock), CallbackSuccess)]
              @ (if currentIndex rm > 0
                 then [(SocketEmit (sid sock),
                        NewQuestion (at_index (questions (quiz rm)) (currentIndex rm - 1))
                                    (currentIndex rm - 1))]
                 else []),
              None))"

subsection \<open>nextQuestion\<close>

definition nextQuestion :: "server \<Rightarrow> socket \<Rightarrow> string \<Rightarrow> outcome" where
  "nextQuestion s sock c =
     (case map_of (liveRooms s) c of
        None \<Rightarrow> (s, [], None)
      | Some rm \<Rightarrow>
          if sid (hostSocket rm) \<noteq> sid sock then (s, [], None)
          else if currentIndex rm \<ge> int (length (questions (quiz rm)))
          then (s\<lparr>liveRooms := AList.delete c (liveRooms s)\<rparr>,
                [(IoTo c, LiveEnded Quiz_completed)], None)
          else
            let q = at_index (questions (quiz rm)) (currentIndex rm);
                rm' = rm\<lparr>currentIndex := currentIndex rm + 1\<rparr>
            in (s\<lparr>liveRooms := AList.update c rm' (liveRooms s)\<rparr>,
                [(IoTo c, NewQuestion q (currentIndex rm' - 1))], None))"

subsection \<open>submitAnswer\<close>

text \<open>The participant object is changed in place inside the room, which is changed
  in place inside the registry.\<close>

definition put_participant :: "server \<Rightarrow> string \<Rightarrow> room \<Rightarrow> string \<Rightarrow> participant \<Rightarrow> server" where
  "put_participant s c rm u p =
     s\<lparr>liveRooms := AList.update c (rm\<lparr>participants := AList.update u p (participants rm)\<rparr>)
                                  (liveRooms s)\<rparr>"

text \<open>
  There is no test of \<^verbatim>\<open>currentIndex\<close>: the question is read at \<^verbatim>\<open>currentIndex - 1\<close>, the
  answer is stored under that index, and \<^verbatim>\<open>question.correct\<close> throws a \<^verbatim>\<open>TypeError\<close> when
  the read gave \<^verbatim>\<open>undefined\<close>. \<^verbatim>\<open>includes\<close> on integers is membership.
\<close>

definition submitAnswer :: "server \<Rightarrow> socket \<Rightarrow> string \<Rightarrow> int \<Rightarrow> outcome" where
  "submitAnswer s sock c answerIndex =
     (case map_of (liveRooms s) c of
        None \<Rightarrow> (s, [], None)
      | Some rm \<Rightarrow>
          (case map_of (participants rm) (uid (user sock)) of
             None \<Rightarrow> (s, [], None)
           | Some p \<Rightarrow>
               let currentQuestionIndex = currentIndex rm - 1;
                   q = at_index (questions (quiz rm)) currentQuestionIndex;
                   p1 = p\<lparr>answers := AList.update currentQuestionIndex answerIndex (answers p)\<rparr>
               in (case q of
                     None \<Rightarrow> (put_participant s c rm (uid (user sock)) p1, [], Some TypeError)
                   | Some qu \<Rightarrow>
                       let isCorrect = (answerIndex \<in> set (correct qu));
                           p2 = (if isCorrect then p1\<lparr>score := score p1 + 1\<rparr> else p1)
                       in (put_participant s c rm (uid (user sock)) p2,
                           [(SocketEmit (sid (hostSocket rm)),
                             AnswerReceived (name p2) (Some isCorrect)),
                            (SocketTo (sid sock) c, AnswerReceived (name p2) None)],
                           None))))"

subsection \<open>endLive\<close>

definition endLive :: "server \<Rightarrow> socket \<Rightarrow> string \<Rightarrow> outcome" where
  "endLive s sock c =
     (case map_of (liveRooms s) c of
        None \<Rightarrow> (s, [], None)
      | Some rm \<Rightarrow>
          if sid (hostSocket rm) \<noteq> sid sock then (s, [], None)
          else (s\<lparr>liveRooms := AList.delete c (liveRooms s)\<rparr>,
                [(IoTo c, LiveEnded Ended_by_teacher)], None))"

subsection \<open>disconnect\<close>

text \<open>The \<^verbatim>\<open>for\<close> loop over \<^verbatim>\<open>liveRooms.entries()\<close> with its \<^verbatim>\<open>break\<close>: the key of the
  first entry whose host is the socket.\<close>

fun first_hosted :: "socket \<Rightarrow> (string \<times> room) list \<Rightarrow> string option" where
  "first_hosted sock [] = None"
| "first_hosted sock ((c, rm) # rest) =
     (if sid (hostSocket rm) = sid sock then Some c else first_hosted sock rest)"

definition disconnect :: "server \<Rightarrow> socket \<Rightarrow> outcome" where
  "disconnect s sock =
     (case first_hosted sock (liveRooms s) of
        None \<Rightarrow> (s, [], None)
      | Some c \<Rightarrow> (s\<lparr>liveRooms := AList.delete c (liveRooms s)\<rparr>,
                   [(IoTo c, LiveEnded Teacher_disconnected)], None))"

subsection \<open>Dispatch\<close>

text \<open>An event names the socket it arrived on and carries its payload; \<open>CreateLive\<close>
  also carries what the content store answered and the random draws of this call.\<close>

datatype event =
    CreateLive socket string fetched "string list"
  | JoinLive socket string
  | NextQuestion socket string
  | SubmitAnswer socket string int
  | EndLive socket string
  | Disconnect socket

fun step :: "event \<Rightarrow> server \<Rightarrow> outcome option" where
  "step (CreateLive sock qid got draws) s = createLive got draws s sock qid"
| "step (JoinLive sock c) s = Some (joinLive s sock c)"
| "step (NextQuestion sock c) s = Some (nextQuestion s sock c)"
| "step (SubmitAnswer sock c a) s = Some (submitAnswer s sock c a)"
| "step (EndLive sock c) s = Some (endLive s sock c)"
| "step (Disconnect sock) s = Some (disconnect s sock)"

text \<open>A sequence of events, each handled on the state the previous one left (also
  after a throw); the second component collects everything sent.\<close>

fun run :: "event list \<Rightarrow> server \<Rightarrow> (server \<times> (target \<times> message) list) option" where
  "run [] s = Some (s, [])"
| "run (e # es) s =
     (case step e s of
        None \<Rightarrow> None
      | Some (s', out, err) \<Rightarrow>
          (case run es s' of
             None \<Rightarrow> None
           | Some (s'', out') \<Rightarrow> Some (s'', out @ out')))"

definition empty_server :: server where
  "empty_server = \<lparr>liveRooms = [], groups = {}\<rparr>"

text \<open>The three components of an outcome.\<close>

definition state_of :: "outcome \<Rightarrow> server" where
  "state_of r = fst r"

definition sent :: "outcome \<Rightarrow> (target \<times> message) list" where
  "sent r = fst (snd r)"

definition thrown :: "outcome \<Rightarrow> js_error option" where
  "thrown r = snd (snd r)"

text \<open>What goes to a group of the transport rather than to one socket.\<close>

fun to_group :: "target \<Rightarrow> string option" where
  "to_group (IoTo g) = Some g"
| "to_group (SocketTo x g) = Some g"
| "to_group (Callback x) = None"
| "to_group (SocketEmit x) = None"

definition group_messages :: "(target \<times> message) list \<Rightarrow> (target \<times> message) list" where
  "group_messages out = filter (\<lambda>(t, m). to_group t \<noteq> None) out"

section \<open>A concrete session\<close>

definition prof :: socket where
  "prof = \<lparr>sid = 1, user = \<lparr>uid = ''t1'', user_name = ''Prof'', role = ''teacher''\<rparr>\<rparr>"

definition alice :: socket where
  "alice = \<lparr>sid = 2, user = \<lparr>uid = ''a1'', user_name = ''Alice'', role = ''student''\<rparr>\<rparr>"

definition carol :: socket where
  "carol = \<lparr>sid = 3, user = \<lparr>uid = ''t2'', user_name = ''Carol'', role = ''teacher''\<rparr>\<rparr>"

definition demo_quiz :: quizData where
  "demo_quiz = \<lparr>ownerUid = ''t1'', questions = [\<lparr>correct = [1]\<rparr>, \<lparr>correct = [0, 2]\<rparr>]\<rparr>"

text \<open>The session that \<open>prof\<close> creates for \<open>demo_quiz\<close> when the random draw is
  \<^verbatim>\<open>0.abc123xyz\<close>, before any question is sent.\<close>

definition demo_room :: room where
  "demo_room = \<lparr>code = ''QZ-ABC123'', hostSocket = prof, quizId = ''quiz-1'', quiz = demo_quiz,
                 currentIndex = 0, participants = []\<rparr>"

definition lobby :: server where
  "lobby = \<lparr>liveRooms = [(''QZ-ABC123'', demo_room)], groups = {(''QZ-ABC123'', 1)}\<rparr>"

text \<open>The same session once \<open>alice\<close> has joined under the canonical code and the first
  question has been sent.\<close>

definition started :: server where
  "started = \<lparr>liveRooms = [(''QZ-ABC123'',
       demo_room\<lparr>currentIndex := 1,
                 participants := [(''a1'', \<lparr>name = ''Alice'', score = 0, answers = []\<rparr>)]\<rparr>)],
     groups = {(''QZ-ABC123'', 2), (''QZ-ABC123'', 1)}\<rparr>"

text \<open>A registry in which \<open>prof\<close> hosts the second and the third of three sessions;
  the first is hosted by \<open>carol\<close>, for a quiz of her own.\<close>

definition carol_room :: room where
  "carol_room = \<lparr>code = ''QZ-000AAA'', hostSocket = carol, quizId = ''quiz-2'',
                  quiz = demo_quiz\<lparr>ownerUid := ''t2''\<rparr>, currentIndex = 0, participants = []\<rparr>"

definition two_sessions :: server where
  "two_sessions = \<lparr>liveRooms = [(''QZ-000AAA'', carol_room),
                                (''QZ-ABC123'', demo_room),
                                (''QZ-XYZ789'', demo_room\<lparr>code := ''QZ-XYZ789'', currentIndex := 1\<rparr>)],
                   groups = {(''QZ-XYZ789'', 1), (''QZ-ABC123'', 1), (''QZ-000AAA'', 3)}\<rparr>"

text \<open>The lobby once \<open>alice\<close> has joined under the canonical code, no question sent.\<close>

definition joined :: server where
  "joined = \<lparr>liveRooms = [(''QZ-ABC123'',
       demo_room\<lparr>participants := [(''a1'', \<lparr>name = ''Alice'', score = 0, answers = []\<rparr>)]\<rparr>)],
     groups = {(''QZ-ABC123'', 2), (''QZ-ABC123'', 1)}\<rparr>"



section \<open>Notions used by the properties\<close>

text \<open>The state after \<open>k\<close> successive \<^verbatim>\<open>nextQuestion\<close> events on the same socket and code.\<close>

fun nextQuestion_times :: "nat \<Rightarrow> server \<Rightarrow> socket \<Rightarrow> string \<Rightarrow> server" where
  "nextQuestion_times 0 s sock c = s"
| "nextQuestion_times (Suc k) s sock c =
     nextQuestion_times k (state_of (nextQuestion s sock c)) sock c"

text \<open>The participant stored for identity \<open>u\<close> in the session registered under \<open>c\<close>.\<close>

definition participant_of :: "server \<Rightarrow> string \<Rightarrow> string \<Rightarrow> participant option" where
  "participant_of s c u =
     (case map_of (liveRooms s) c of None \<Rightarrow> None | Some rm \<Rightarrow> map_of (participants rm) u)"

text \<open>The bound on \<^verbatim>\<open>currentIndex\<close>, for every session in the registry.\<close>

definition index_in_range :: "server \<Rightarrow> bool" where
  "index_in_range s =
     (\<forall>(c, rm) \<in> set (liveRooms s).
        0 \<le> currentIndex rm \<and> currentIndex rm \<le> int (length (questions (quiz rm))))"

text \<open>The registry entries whose host is the given socket.\<close>

definition hosted_by :: "socket \<Rightarrow> string \<times> room \<Rightarrow> bool" where
  "hosted_by sock e = (sid (hostSocket (snd e)) = sid sock)"




section \<open>Evaluation and association-list facts\<close>

lemmas demo_defs = prof_def alice_def carol_def demo_quiz_def demo_room_def lobby_def empty_server_def
lemmas js_defs = at_index_def toUpperCase_def upper_char_def substring_def generateCode_def
lemmas outcome_defs = state_of_def sent_def thrown_def

lemma lobby_created:
  "createLive (Snapshot (Some demo_quiz)) [''0.abc123xyz''] empty_server prof ''quiz-1'' =
     Some (lobby, [(Callback 1, CallbackCode ''QZ-ABC123''),
                   (SocketEmit 1, LiveCreated ''QZ-ABC123'')], None)"
  by (simp add: createLive_def demo_defs js_defs)

lemma started_reached:
  "run [JoinLive alice ''QZ-ABC123'', NextQuestion prof ''QZ-ABC123''] lobby =
     Some (started,
           [(SocketEmit 1, StudentJoined ''Alice'' 1),
            (SocketTo 2 ''QZ-ABC123'', StudentJoined ''Alice'' 1),
            (Callback 2, CallbackSuccess),
            (IoTo ''QZ-ABC123'', NewQuestion (Some \<lparr>correct = [1]\<rparr>) 0)])"
  by (simp add: joinLive_def nextQuestion_def Let_def demo_defs js_defs started_def)

lemma joined_reached:
  "joinLive lobby alice ''QZ-ABC123'' =
     (joined,
      [(SocketEmit 1, StudentJoined ''Alice'' 1),
       (SocketTo 2 ''QZ-ABC123'', StudentJoined ''Alice'' 1),
       (Callback 2, CallbackSuccess)], None)"
  by (simp add: joinLive_def Let_def demo_defs js_defs joined_def)

lemma two_sessions_reached:
  "run [CreateLive carol ''quiz-2'' (Snapshot (Some (demo_quiz\<lparr>ownerUid := ''t2''\<rparr>))) [''0.000aaa''],
        CreateLive prof ''quiz-1'' (Snapshot (Some demo_quiz)) [''0.abc123xyz''],
        CreateLive prof ''quiz-1'' (Snapshot (Some demo_quiz)) [''0.abc123xyz'', ''0.xyz789''],
        NextQuestion prof ''QZ-XYZ789''] empty_server =
     Some (two_sessions,
           [(Callback 3, CallbackCode ''QZ-000AAA''), (SocketEmit 3, LiveCreated ''QZ-000AAA''),
            (Callback 1, CallbackCode ''QZ-ABC123''), (SocketEmit 1, LiveCreated ''QZ-ABC123''),
            (Callback 1, CallbackCode ''QZ-XYZ789''), (SocketEmit 1, LiveCreated ''QZ-XYZ789''),
            (IoTo ''QZ-XYZ789'', NewQuestion (Some \<lparr>correct = [1]\<rparr>) 0)])"
  by (simp add: createLive_def nextQuestion_def Let_def demo_defs js_defs two_sessions_def
                carol_room_def)

lemma in_update_cases:
  "e \<in> set (AList.update k v al) \<Longrightarrow> e = (k, v) \<or> e \<in> set al"
  by (induction al) (auto split: if_splits)

lemma in_delete_subset:
  "e \<in> set (AList.delete k al) \<Longrightarrow> e \<in> set al"
  by (simp add: AList.delete_eq)

lemma delete_keeps_others:
  "distinct (map fst al) \<Longrightarrow> (k, v) \<in> set al \<Longrightarrow> set (AList.delete k al) = set al - {(k, v)}"
  by (induction al) (auto simp: AList.delete_eq rev_image_eqI)

lemma delete_length:
  "distinct (map fst al) \<Longrightarrow> (k, v) \<in> set al \<Longrightarrow> Suc (length (AList.delete k al)) = length al"
proof (induction al)
  case Nil
  then show ?case by simp
next
  case (Cons e al)
  show ?case
  proof (cases "fst e = k")
    case True
    with Cons.prems have "k \<notin> fst ` set al" by auto
    then have "AList.delete k al = al"
      by (induction al) auto
    with True show ?thesis by (cases e) simp
  next
    case False
    with Cons show ?thesis by (cases e) auto
  qed
qed

lemma first_hosted_filter:
  "first_hosted sock rooms =
     (case filter (hosted_by sock) rooms of [] \<Rightarrow> None | e # es \<Rightarrow> Some (fst e))"
  by (induction rooms) (auto simp: hosted_by_def)

section \<open>Host-only events\<close>

text \<open>
  C6. Take a session registered under \<open>c\<close> and a socket that is not its host. A
  \<^verbatim>\<open>nextQuestion\<close> or \<^verbatim>\<open>endLive\<close> from that socket for \<open>c\<close> returns the state as it was and
  sends nothing, neither a broadcast nor a reply. Whatever code the socket names, the
  session under \<open>c\<close> and the group memberships stay as they were and nothing is sent to
  the group \<open>c\<close>.
\<close>

theorem non_host_call_is_ignored:
  assumes "map_of (liveRooms s) c = Some rm"
      and "sid sock \<noteq> sid (hostSocket rm)"
  shows "nextQuestion s sock c = (s, [], None) \<and> endLive s sock c = (s, [], None) \<and>
         (\<forall>c'. map_of (liveRooms (state_of (nextQuestion s sock c'))) c = Some rm \<and>
               map_of (liveRooms (state_of (endLive s sock c'))) c = Some rm \<and>
               groups (state_of (nextQuestion s sock c')) = groups s \<and>
               groups (state_of (endLive s sock c')) = groups s \<and>
               (\<forall>(t, m) \<in> set (sent (nextQuestion s sock c') @ sent (endLive s sock c')).
                   to_group t \<noteq> Some c))"
proof -
  have direct: "nextQuestion s sock c = (s, [], None) \<and> endLive s sock c = (s, [], None)"
    using assms by (simp add: nextQuestion_def endLive_def)
  have other: "map_of (liveRooms (state_of (nextQuestion s sock c'))) c = Some rm \<and>
               map_of (liveRooms (state_of (endLive s sock c'))) c = Some rm \<and>
               groups (state_of (nextQuestion s sock c')) = groups s \<and>
               groups (state_of (endLive s sock c')) = groups s \<and>
               (\<forall>(t, m) \<in> set (sent (nextQuestion s sock c') @ sent (endLive s sock c')).
                   to_group t \<noteq> Some c)" for c'
  proof (cases "c' = c")
    case True
    with direct assms show ?thesis by (simp add: outcome_defs)
  next
    case False
    with assms show ?thesis
      by (auto simp: nextQuestion_def endLive_def outcome_defs Let_def update_conv' delete_conv'
               split: option.splits)
  qed
  from direct other show ?thesis by blast
qed

theorem non_host_call_is_ignored_witness:
  "map_of (liveRooms lobby) ''QZ-ABC123'' = Some demo_room \<and>
   sid alice \<noteq> sid (hostSocket demo_room) \<and>
   nextQuestion lobby alice ''QZ-ABC123'' = (lobby, [], None) \<and>
   endLive lobby alice ''QZ-ABC123'' = (lobby, [], None)"
proof -
  have h1: "map_of (liveRooms lobby) ''QZ-ABC123'' = Some demo_room"
    by (simp add: lobby_def)
  have h2: "sid alice \<noteq> sid (hostSocket demo_room)"
    by (simp add: demo_defs)
  from non_host_call_is_ignored [OF h1 h2] h1 h2 show ?thesis by blast
qed

section \<open>Failure paths of createLive\<close>

text \<open>
  C7. When the caller's role is not teacher, or the fetch from the content store
  throws, or the quiz does not exist, or the caller is not the owner recorded in the
  quiz, \<^verbatim>\<open>createLive\<close> returns, sends one error on the caller's acknowledgement callback
  and nothing else, and leaves the whole state as it was: no session is registered, no
  code is taken and no group is joined.
\<close>

theorem createLive_failure_keeps_registry:
  assumes "role (user sock) \<noteq> ''teacher'' \<or> got = Rejected \<or> got = Snapshot None \<or>
           (\<exists>qd. got = Snapshot (Some qd) \<and> ownerUid qd \<noteq> uid (user sock))"
  shows "\<exists>e. createLive got draws s sock qid =
               Some (s, [(Callback (sid sock), CallbackError e)], None)"
  using assms by (auto simp: createLive_def)

theorem createLive_failure_keeps_registry_witness:
  "(\<exists>e. createLive (Snapshot (Some demo_quiz)) [''0.abc123xyz''] lobby alice ''quiz-1'' =
          Some (lobby, [(Callback (sid alice), CallbackError e)], None)) \<and>
   (\<exists>e. createLive Rejected [''0.abc123xyz''] lobby prof ''quiz-1'' =
          Some (lobby, [(Callback (sid prof), CallbackError e)], None)) \<and>
   (\<exists>e. createLive (Snapshot None) [''0.abc123xyz''] lobby prof ''quiz-9'' =
          Some (lobby, [(Callback (sid prof), CallbackError e)], None)) \<and>
   (\<exists>e. createLive (Snapshot (Some (demo_quiz\<lparr>ownerUid := ''t2''\<rparr>))) [''0.abc123xyz'']
            lobby prof ''quiz-2'' =
          Some (lobby, [(Callback (sid prof), CallbackError e)], None))"
proof -
  have a: "role (user alice) \<noteq> ''teacher''" by (simp add: alice_def)
  have 1: "\<exists>e. createLive (Snapshot (Some demo_quiz)) [''0.abc123xyz''] lobby alice ''quiz-1'' =
          Some (lobby, [(Callback (sid alice), CallbackError e)], None)"
    by (rule createLive_failure_keeps_registry) (simp add: a)
  have 2: "\<exists>e. createLive Rejected [''0.abc123xyz''] lobby prof ''quiz-1'' =
          Some (lobby, [(Callback (sid prof), CallbackError e)], None)"
    by (rule createLive_failure_keeps_registry) simp
  have 3: "\<exists>e. createLive (Snapshot None) [''0.abc123xyz''] lobby prof ''quiz-9'' =
          Some (lobby, [(Callback (sid prof), CallbackError e)], None)"
    by (rule createLive_failure_keeps_registry) simp
  have 4: "\<exists>e. createLive (Snapshot (Some (demo_quiz\<lparr>ownerUid := ''t2''\<rparr>))) [''0.abc123xyz'']
            lobby prof ''quiz-2'' =
          Some (lobby, [(Callback (sid prof), CallbackError e)], None)"
    by (rule createLive_failure_keeps_registry) (simp add: prof_def)
  from 1 2 3 4 show ?thesis by blast
qed

section \<open>What the peers learn from an answer\<close>

text \<open>
  C8. When \<^verbatim>\<open>submitAnswer\<close> is processed (the session is found, the caller has a
  participant record, there is a question at \<^verbatim>\<open>currentIndex - 1\<close>), two messages are
  sent: to the host socket the participant's name with the correctness flag, and to the
  group minus the submitter the participant's name alone. What goes to the group is the
  same for any two submitted answers, so the same for a correct and an incorrect one.
\<close>

theorem peers_see_name_only:
  assumes "map_of (liveRooms s) c = Some rm"
      and "map_of (participants rm) (uid (user sock)) = Some p"
      and "at_index (questions (quiz rm)) (currentIndex rm - 1) = Some qu"
  shows "sent (submitAnswer s sock c a) =
           [(SocketEmit (sid (hostSocket rm)), AnswerReceived (name p) (Some (a \<in> set (correct qu)))),
            (SocketTo (sid sock) c, AnswerReceived (name p) None)] \<and>
         group_messages (sent (submitAnswer s sock c a)) =
           [(SocketTo (sid sock) c, AnswerReceived (name p) None)] \<and>
         group_messages (sent (submitAnswer s sock c a)) =
           group_messages (sent (submitAnswer s sock c a'))"
  using assms by (simp add: submitAnswer_def sent_def group_messages_def Let_def)

theorem peers_see_name_only_witness:
  "sent (submitAnswer started alice ''QZ-ABC123'' 1) =
     [(SocketEmit 1, AnswerReceived ''Alice'' (Some True)),
      (SocketTo 2 ''QZ-ABC123'', AnswerReceived ''Alice'' None)] \<and>
   sent (submitAnswer started alice ''QZ-ABC123'' 0) =
     [(SocketEmit 1, AnswerReceived ''Alice'' (Some False)),
      (SocketTo 2 ''QZ-ABC123'', AnswerReceived ''Alice'' None)] \<and>
   group_messages (sent (submitAnswer started alice ''QZ-ABC123'' 1)) =
   group_messages (sent (submitAnswer started alice ''QZ-ABC123'' 0))"
proof -
  let ?rm = "demo_room\<lparr>currentIndex := 1,
                 participants := [(''a1'', \<lparr>name = ''Alice'', score = 0, answers = []\<rparr>)]\<rparr>"
  let ?p = "\<lparr>name = ''Alice'', score = 0, answers = []\<rparr>"
  have h1: "map_of (liveRooms started) ''QZ-ABC123'' = Some ?rm"
    by (simp add: started_def)
  have h2: "map_of (participants ?rm) (uid (user alice)) = Some ?p"
    by (simp add: alice_def)
  have h3: "at_index (questions (quiz ?rm)) (currentIndex ?rm - 1) = Some \<lparr>correct = [1]\<rparr>"
    by (simp add: demo_defs at_index_def)
  from peers_see_name_only [OF h1 h2 h3, of 1 0] peers_see_name_only [OF h1 h2 h3, of 0 1]
  show ?thesis by (simp add: demo_defs group_messages_def)
qed

section \<open>A disconnecting host\<close>

text \<open>
  C9. With distinct keys in the registry, \<^verbatim>\<open>disconnect\<close> ends at most one session. When
  the socket hosts none, nothing changes and nothing is sent. Otherwise the first entry
  it hosts, in the order of the registry, gets the teacher-disconnected broadcast and is
  deleted; exactly that entry leaves the registry, so every further session the socket
  hosts stays registered.
\<close>

theorem disconnect_ends_one_session:
  assumes "distinct (map fst (liveRooms s))"
  shows "case filter (hosted_by sock) (liveRooms s) of
           [] \<Rightarrow> disconnect s sock = (s, [], None)
         | e # others \<Rightarrow>
             disconnect s sock = (s\<lparr>liveRooms := AList.delete (fst e) (liveRooms s)\<rparr>,
                                  [(IoTo (fst e), LiveEnded Teacher_disconnected)], None) \<and>
             set (AList.delete (fst e) (liveRooms s)) = set (liveRooms s) - {e} \<and>
             set others \<subseteq> set (liveRooms (state_of (disconnect s sock))) \<and>
             Suc (length (liveRooms (state_of (disconnect s sock)))) = length (liveRooms s)"
proof (cases "filter (hosted_by sock) (liveRooms s)")
  case Nil
  then show ?thesis by (simp add: disconnect_def first_hosted_filter)
next
  case (Cons e others)
  then have result: "disconnect s sock = (s\<lparr>liveRooms := AList.delete (fst e) (liveRooms s)\<rparr>,
                                  [(IoTo (fst e), LiveEnded Teacher_disconnected)], None)"
    by (simp add: disconnect_def first_hosted_filter)
  have "e \<in> set (filter (hosted_by sock) (liveRooms s))"
    using Cons by simp
  then have mem: "(fst e, snd e) \<in> set (liveRooms s)" by simp
  have "distinct (filter (hosted_by sock) (liveRooms s))"
    using assms by (simp add: distinct_map)
  then have "e \<notin> set others" using Cons by simp
  moreover have "set others \<subseteq> set (liveRooms s)"
  proof -
    have "set others \<subseteq> set (filter (hosted_by sock) (liveRooms s))" using Cons by auto
    then show ?thesis by auto
  qed
  moreover have del: "set (AList.delete (fst e) (liveRooms s)) = set (liveRooms s) - {e}"
    using delete_keeps_others [OF assms mem] by simp
  ultimately have "set others \<subseteq> set (AList.delete (fst e) (liveRooms s))" by auto
  with result del delete_length [OF assms mem] Cons show ?thesis
    by (simp add: state_of_def)
qed

theorem disconnect_ends_one_session_witness:
  "distinct (map fst (liveRooms two_sessions)) \<and>
   disconnect two_sessions prof =
     (two_sessions\<lparr>liveRooms := [(''QZ-000AAA'', carol_room),
                                 (''QZ-XYZ789'', demo_room\<lparr>code := ''QZ-XYZ789'', currentIndex := 1\<rparr>)]\<rparr>,
      [(IoTo ''QZ-ABC123'', LiveEnded Teacher_disconnected)], None) \<and>
   sid (hostSocket (demo_room\<lparr>code := ''QZ-XYZ789'', currentIndex := 1\<rparr>)) = sid prof"
proof -
  have h: "distinct (map fst (liveRooms two_sessions))"
    by (simp add: two_sessions_def)
  from disconnect_ends_one_session [OF h, of prof] h show ?thesis
    by (simp add: two_sessions_def carol_room_def hosted_by_def demo_defs state_of_def)
qed

section \<open>The bound on currentIndex\<close>

lemma range_createLive:
  assumes "index_in_range s" and "createLive got draws s sock qid = Some (s', out, err)"
  shows "index_in_range s'"
  using assms
  by (auto simp: createLive_def index_in_range_def Let_def
           split: if_splits fetched.splits option.splits dest!: in_update_cases)

lemma range_joinLive:
  assumes "index_in_range s" and "joinLive s sock c = (s', out, err)"
  shows "index_in_range s'"
proof (cases "map_of (liveRooms s) (toUpperCase c)")
  case None
  with assms show ?thesis by (simp add: joinLive_def)
next
  case (Some rm)
  then have "(toUpperCase c, rm) \<in> set (liveRooms s)" by (rule map_of_SomeD)
  with assms(1) have "0 \<le> currentIndex rm \<and> currentIndex rm \<le> int (length (questions (quiz rm)))"
    by (auto simp: index_in_range_def)
  with assms Some show ?thesis
    by (auto simp: joinLive_def index_in_range_def Let_def dest!: in_update_cases)
qed

lemma range_nextQuestion:
  assumes "index_in_range s" and "nextQuestion s sock c = (s', out, err)"
  shows "index_in_range s'"
proof (cases "map_of (liveRooms s) c")
  case None
  with assms show ?thesis by (simp add: nextQuestion_def)
next
  case (Some rm)
  then have "(c, rm) \<in> set (liveRooms s)" by (rule map_of_SomeD)
  with assms(1) have "0 \<le> currentIndex rm"
    by (auto simp: index_in_range_def)
  with assms Some show ?thesis
    by (auto simp: nextQuestion_def index_in_range_def Let_def
             split: if_splits dest!: in_update_cases in_delete_subset)
qed

lemma range_submitAnswer:
  assumes "index_in_range s" and "submitAnswer s sock c a = (s', out, err)"
  shows "index_in_range s'"
proof (cases "map_of (liveRooms s) c")
  case None
  with assms show ?thesis by (simp add: submitAnswer_def)
next
  case (Some rm)
  then have "(c, rm) \<in> set (liveRooms s)" by (rule map_of_SomeD)
  with assms(1) have "0 \<le> currentIndex rm \<and> currentIndex rm \<le> int (length (questions (quiz rm)))"
    by (auto simp: index_in_range_def)
  with assms Some show ?thesis
    by (auto simp: submitAnswer_def put_participant_def index_in_range_def Let_def
             split: option.splits dest!: in_update_cases)
qed

lemma range_endLive:
  assumes "index_in_range s" and "endLive s sock c = (s', out, err)"
  shows "index_in_range s'"
  using assms
  by (auto simp: endLive_def index_in_range_def split: option.splits if_splits dest!: in_delete_subset)

lemma range_disconnect:
  assumes "index_in_range s" and "disconnect s sock = (s', out, err)"
  shows "index_in_range s'"
  using assms
  by (auto simp: disconnect_def index_in_range_def split: option.splits dest!: in_delete_subset)

lemma range_step:
  assumes "index_in_range s" and "step e s = Some (s', out, err)"
  shows "index_in_range s'"
  using assms
  by (cases e)
     (auto intro: range_createLive range_joinLive range_nextQuestion range_submitAnswer
                  range_endLive range_disconnect)

lemma two_sent:
  "run [CreateLive prof ''quiz-1'' (Snapshot (Some demo_quiz)) [''0.abc123xyz''],
        NextQuestion prof ''QZ-ABC123'', NextQuestion prof ''QZ-ABC123''] empty_server =
   Some (lobby\<lparr>liveRooms := [(''QZ-ABC123'', demo_room\<lparr>currentIndex := 2\<rparr>)]\<rparr>,
         [(Callback 1, CallbackCode ''QZ-ABC123''), (SocketEmit 1, LiveCreated ''QZ-ABC123''),
          (IoTo ''QZ-ABC123'', NewQuestion (Some \<lparr>correct = [1]\<rparr>) 0),
          (IoTo ''QZ-ABC123'', NewQuestion (Some \<lparr>correct = [0, 2]\<rparr>) 1)])"
  by (simp add: createLive_def nextQuestion_def Let_def demo_defs js_defs)

text \<open>
  C5. The bound \<open>0 \<le> currentIndex \<le> length (quiz.questions)\<close>, for every session in
  the registry, is kept by every sequence of the six events (also by an event whose
  handler throws): it holds of the empty registry, \<^verbatim>\<open>createLive\<close> registers a session with
  index 0, and \<^verbatim>\<open>nextQuestion\<close> adds 1 only below the length.
\<close>

theorem currentIndex_stays_in_range:
  assumes "index_in_range s" and "run es s = Some (s', out)"
  shows "index_in_range s'"
  using assms
proof (induction es arbitrary: s out)
  case Nil
  then show ?case by simp
next
  case (Cons e es)
  from Cons.prems(2) obtain s1 out1 err1 out2
    where st: "step e s = Some (s1, out1, err1)" and rest: "run es s1 = Some (s', out2)"
    by (auto split: option.splits prod.splits)
  from range_step [OF Cons.prems(1) st] have "index_in_range s1" .
  from Cons.IH [OF this rest] show ?case .
qed

theorem currentIndex_stays_in_range_witness:
  "index_in_range empty_server \<and>
   run [CreateLive prof ''quiz-1'' (Snapshot (Some demo_quiz)) [''0.abc123xyz''],
        NextQuestion prof ''QZ-ABC123'', NextQuestion prof ''QZ-ABC123''] empty_server =
   Some (lobby\<lparr>liveRooms := [(''QZ-ABC123'', demo_room\<lparr>currentIndex := 2\<rparr>)]\<rparr>,
         [(Callback 1, CallbackCode ''QZ-ABC123''), (SocketEmit 1, LiveCreated ''QZ-ABC123''),
          (IoTo ''QZ-ABC123'', NewQuestion (Some \<lparr>correct = [1]\<rparr>) 0),
          (IoTo ''QZ-ABC123'', NewQuestion (Some \<lparr>correct = [0, 2]\<rparr>) 1)]) \<and>
   index_in_range (lobby\<lparr>liveRooms := [(''QZ-ABC123'', demo_room\<lparr>currentIndex := 2\<rparr>)]\<rparr>)"
proof -
  have h: "index_in_range empty_server"
    by (simp add: index_in_range_def empty_server_def)
  from currentIndex_stays_in_range [OF h two_sent] h two_sent show ?thesis by blast
qed

section \<open>The end of the quiz\<close>

lemma nextQuestion_times_add:
  "nextQuestion_times (j + k) s sock c = nextQuestion_times k (nextQuestion_times j s sock c) sock c"
  by (induction j arbitrary: s) simp_all

lemma nextQuestion_advances:
  assumes "map_of (liveRooms s) c = Some rm" and "sid (hostSocket rm) = sid sock"
      and "currentIndex rm < int (length (questions (quiz rm)))"
  shows "nextQuestion s sock c =
           (s\<lparr>liveRooms := AList.update c (rm\<lparr>currentIndex := currentIndex rm + 1\<rparr>) (liveRooms s)\<rparr>,
            [(IoTo c, NewQuestion (at_index (questions (quiz rm)) (currentIndex rm)) (currentIndex rm))],
            None)"
  using assms by (simp add: nextQuestion_def Let_def)

lemma nextQuestion_times_index:
  assumes "map_of (liveRooms s) c = Some rm" and "sid (hostSocket rm) = sid sock"
      and "currentIndex rm + int k \<le> int (length (questions (quiz rm)))"
  shows "map_of (liveRooms (nextQuestion_times k s sock c)) c =
           Some (rm\<lparr>currentIndex := currentIndex rm + int k\<rparr>)"
  using assms
proof (induction k arbitrary: s rm)
  case 0
  then show ?case by simp
next
  case (Suc k)
  let ?rm = "rm\<lparr>currentIndex := currentIndex rm + 1\<rparr>"
  let ?s = "s\<lparr>liveRooms := AList.update c ?rm (liveRooms s)\<rparr>"
  from Suc.prems have lt: "currentIndex rm < int (length (questions (quiz rm)))" by simp
  from nextQuestion_advances [OF Suc.prems(1,2) lt]
  have st: "state_of (nextQuestion s sock c) = ?s" by (simp add: state_of_def)
  have a: "map_of (liveRooms ?s) c = Some ?rm" by (simp add: update_conv')
  have b: "sid (hostSocket ?rm) = sid sock" using Suc.prems(2) by simp
  have c: "currentIndex ?rm + int k \<le> int (length (questions (quiz ?rm)))"
    using Suc.prems(3) by simp
  from Suc.IH [OF a b c] st show ?case by (simp add: add.assoc)
qed

text \<open>
  C3, as the code has it. On a session in the lobby (\<^verbatim>\<open>currentIndex\<close> 0) with \<open>n\<close>
  questions, the first \<open>n\<close> calls of \<^verbatim>\<open>nextQuestion\<close> by the host each send one question:
  call number \<open>k + 1\<close> finds \<^verbatim>\<open>currentIndex = k\<close> and broadcasts question \<open>k\<close> with index
  \<open>k\<close> to the group, and nothing else. After these \<open>n\<close> calls the session is still
  registered, with \<^verbatim>\<open>currentIndex = n\<close>. The call after those, number \<open>n + 1\<close>, broadcasts
  the end of the quiz and deletes the session, and a call after that finds no session,
  changes nothing and sends nothing.
\<close>

theorem quiz_ends_on_call_after_last_question:
  assumes "map_of (liveRooms s) c = Some rm" and "sid (hostSocket rm) = sid sock"
      and "currentIndex rm = 0" and "n = length (questions (quiz rm))"
  shows "(\<forall>k < n. map_of (liveRooms (nextQuestion_times k s sock c)) c =
                    Some (rm\<lparr>currentIndex := int k\<rparr>) \<and>
                  nextQuestion (nextQuestion_times k s sock c) sock c =
                    (nextQuestion_times (Suc k) s sock c,
                     [(IoTo c, NewQuestion (Some (questions (quiz rm) ! k)) (int k))], None)) \<and>
         map_of (liveRooms (nextQuestion_times n s sock c)) c = Some (rm\<lparr>currentIndex := int n\<rparr>) \<and>
         nextQuestion (nextQuestion_times n s sock c) sock c =
           (nextQuestion_times (Suc n) s sock c, [(IoTo c, LiveEnded Quiz_completed)], None) \<and>
         map_of (liveRooms (nextQuestion_times (Suc n) s sock c)) c = None \<and>
         nextQuestion (nextQuestion_times (Suc n) s sock c) sock c =
           (nextQuestion_times (Suc n) s sock c, [], None)"
proof -
  let ?sn = "nextQuestion_times n s sock c"
  have suc: "nextQuestion_times (Suc k) s sock c =
               state_of (nextQuestion (nextQuestion_times k s sock c) sock c)" for k
    using nextQuestion_times_add [of k 1 s sock c] by simp
  have at_k: "map_of (liveRooms (nextQuestion_times k s sock c)) c = Some (rm\<lparr>currentIndex := int k\<rparr>)"
    if "k \<le> n" for k
  proof -
    from that assms(3,4) have "currentIndex rm + int k \<le> int (length (questions (quiz rm)))"
      by simp
    from nextQuestion_times_index [OF assms(1,2) this] assms(3) show ?thesis by simp
  qed
  have sends: "nextQuestion (nextQuestion_times k s sock c) sock c =
                 (nextQuestion_times (Suc k) s sock c,
                  [(IoTo c, NewQuestion (Some (questions (quiz rm) ! k)) (int k))], None)"
    if "k < n" for k
  proof -
    let ?sk = "nextQuestion_times k s sock c"
    let ?rk = "rm\<lparr>currentIndex := int k\<rparr>"
    from that have room: "map_of (liveRooms ?sk) c = Some ?rk" by (simp add: at_k)
    have host: "sid (hostSocket ?rk) = sid sock" using assms(2) by simp
    have below: "currentIndex ?rk < int (length (questions (quiz ?rk)))"
      using that assms(4) by simp
    from nextQuestion_advances [OF room host below]
    have call: "nextQuestion ?sk sock c =
        (?sk\<lparr>liveRooms := AList.update c (?rk\<lparr>currentIndex := currentIndex ?rk + 1\<rparr>) (liveRooms ?sk)\<rparr>,
         [(IoTo c, NewQuestion (at_index (questions (quiz ?rk)) (currentIndex ?rk)) (currentIndex ?rk))],
         None)" .
    have q: "at_index (questions (quiz ?rk)) (currentIndex ?rk) = Some (questions (quiz rm) ! k)"
      using that assms(4) by (simp add: at_index_def)
    from call q suc [of k] show ?thesis by (simp add: state_of_def)
  qed
  from at_k [of n] have at_n: "map_of (liveRooms ?sn) c = Some (rm\<lparr>currentIndex := int n\<rparr>)"
    by simp
  then have last: "nextQuestion ?sn sock c =
      (?sn\<lparr>liveRooms := AList.delete c (liveRooms ?sn)\<rparr>, [(IoTo c, LiveEnded Quiz_completed)], None)"
    using assms(2,4) by (simp add: nextQuestion_def)
  with suc [of n] have after: "nextQuestion_times (Suc n) s sock c = ?sn\<lparr>liveRooms := AList.delete c (liveRooms ?sn)\<rparr>"
    by (simp add: state_of_def)
  then have gone: "map_of (liveRooms (nextQuestion_times (Suc n) s sock c)) c = None"
    by (simp add: delete_conv')
  then have noop: "nextQuestion (nextQuestion_times (Suc n) s sock c) sock c =
           (nextQuestion_times (Suc n) s sock c, [], None)"
    by (simp add: nextQuestion_def)
  from at_k sends at_n last after gone noop show ?thesis by simp
qed

theorem quiz_ends_on_call_after_last_question_witness:
  "map_of (liveRooms lobby) ''QZ-ABC123'' = Some demo_room \<and>
   sid (hostSocket demo_room) = sid prof \<and> currentIndex demo_room = 0 \<and>
   2 = length (questions (quiz demo_room)) \<and>
   nextQuestion (nextQuestion_times 0 lobby prof ''QZ-ABC123'') prof ''QZ-ABC123'' =
     (nextQuestion_times (Suc 0) lobby prof ''QZ-ABC123'',
      [(IoTo ''QZ-ABC123'', NewQuestion (Some \<lparr>correct = [1]\<rparr>) (int 0))], None) \<and>
   nextQuestion (nextQuestion_times 1 lobby prof ''QZ-ABC123'') prof ''QZ-ABC123'' =
     (nextQuestion_times (Suc 1) lobby prof ''QZ-ABC123'',
      [(IoTo ''QZ-ABC123'', NewQuestion (Some \<lparr>correct = [0, 2]\<rparr>) (int 1))], None) \<and>
   map_of (liveRooms (nextQuestion_times 2 lobby prof ''QZ-ABC123'')) ''QZ-ABC123'' =
     Some (demo_room\<lparr>currentIndex := int 2\<rparr>) \<and>
   nextQuestion (nextQuestion_times 2 lobby prof ''QZ-ABC123'') prof ''QZ-ABC123'' =
     (nextQuestion_times (Suc 2) lobby prof ''QZ-ABC123'',
      [(IoTo ''QZ-ABC123'', LiveEnded Quiz_completed)], None) \<and>
   map_of (liveRooms (nextQuestion_times (Suc 2) lobby prof ''QZ-ABC123'')) ''QZ-ABC123'' = None \<and>
   nextQuestion (nextQuestion_times (Suc 2) lobby prof ''QZ-ABC123'') prof ''QZ-ABC123'' =
     (nextQuestion_times (Suc 2) lobby prof ''QZ-ABC123'', [], None)"
proof -
  have h1: "map_of (liveRooms lobby) ''QZ-ABC123'' = Some demo_room" by (simp add: lobby_def)
  have h2: "sid (hostSocket demo_room) = sid prof" by (simp add: demo_room_def)
  have h3: "currentIndex demo_room = 0" by (simp add: demo_room_def)
  have h4: "2 = length (questions (quiz demo_room))" by (simp add: demo_room_def demo_quiz_def)
  note all = quiz_ends_on_call_after_last_question [OF h1 h2 h3 h4]
  have lt0: "(0::nat) < 2" and lt1: "(1::nat) < 2" by simp_all
  have q0: "questions (quiz demo_room) ! 0 = \<lparr>correct = [1]\<rparr>"
    and q1: "questions (quiz demo_room) ! 1 = \<lparr>correct = [0, 2]\<rparr>"
    by (simp_all add: demo_room_def demo_quiz_def)
  note first = all [THEN conjunct1, rule_format, OF lt0, THEN conjunct2, unfolded q0]
  note second = all [THEN conjunct1, rule_format, OF lt1, THEN conjunct2, unfolded q1]
  from all [THEN conjunct2] first second h1 h2 h3 h4 show ?thesis by blast
qed

text \<open>C3 as stated fails: the demo quiz has two questions, and after exactly two calls
  the session is still in the registry.\<close>

theorem session_still_live_after_last_question:
  "length (questions (quiz demo_room)) = 2 \<and>
   map_of (liveRooms (nextQuestion_times 2 lobby prof ''QZ-ABC123'')) ''QZ-ABC123'' =
     Some (demo_room\<lparr>currentIndex := 2\<rparr>)"
  by (simp add: numeral_2_eq_2 nextQuestion_def state_of_def Let_def demo_defs)

section \<open>Scoring\<close>

lemma submitAnswer_correct_state:
  assumes "map_of (liveRooms s) c = Some rm"
      and "map_of (participants rm) (uid (user sock)) = Some p"
      and "at_index (questions (quiz rm)) (currentIndex rm - 1) = Some qu"
      and "a \<in> set (correct qu)"
  shows "state_of (submitAnswer s sock c a) =
           put_participant s c rm (uid (user sock))
             (p\<lparr>answers := AList.update (currentIndex rm - 1) a (answers p), score := score p + 1\<rparr>)"
  using assms by (simp add: submitAnswer_def state_of_def Let_def)

text \<open>
  C1, as the code has it. When the session is found, the caller has a participant record
  and the submitted index is among the correct answers of the question at
  \<^verbatim>\<open>currentIndex - 1\<close>, the call stores the answer under that question index and adds
  exactly 1 to the score. The handler does not look at earlier answers: a second such
  call for the same question index overwrites the stored answer and adds 1 again.
\<close>

theorem each_correct_submission_scores:
  assumes "map_of (liveRooms s) c = Some rm"
      and "map_of (participants rm) (uid (user sock)) = Some p"
      and "at_index (questions (quiz rm)) (currentIndex rm - 1) = Some qu"
      and "a \<in> set (correct qu)" and "a' \<in> set (correct qu)"
  shows "participant_of (state_of (submitAnswer s sock c a)) c (uid (user sock)) =
           Some (p\<lparr>answers := AList.update (currentIndex rm - 1) a (answers p),
                   score := score p + 1\<rparr>) \<and>
         participant_of (state_of (submitAnswer (state_of (submitAnswer s sock c a)) sock c a')) c
             (uid (user sock)) =
           Some (p\<lparr>answers := AList.update (currentIndex rm - 1) a' (answers p),
                   score := score p + 2\<rparr>)"
proof -
  let ?u = "uid (user sock)"
  let ?p1 = "p\<lparr>answers := AList.update (currentIndex rm - 1) a (answers p), score := score p + 1\<rparr>"
  let ?rm1 = "rm\<lparr>participants := AList.update ?u ?p1 (participants rm)\<rparr>"
  let ?s1 = "state_of (submitAnswer s sock c a)"
  from submitAnswer_correct_state [OF assms(1-4)]
  have s1: "?s1 = put_participant s c rm ?u ?p1" .
  then have room1: "map_of (liveRooms ?s1) c = Some ?rm1"
    by (simp add: put_participant_def update_conv')
  have part1: "map_of (participants ?rm1) ?u = Some ?p1"
    by (simp add: update_conv')
  have q1: "at_index (questions (quiz ?rm1)) (currentIndex ?rm1 - 1) = Some qu"
    using assms(3) by simp
  from room1 part1 have first: "participant_of ?s1 c ?u = Some ?p1"
    by (simp add: participant_of_def)
  from submitAnswer_correct_state [OF room1 part1 q1 assms(5)]
  have "participant_of (state_of (submitAnswer ?s1 sock c a')) c ?u =
          Some (?p1\<lparr>answers := AList.update (currentIndex ?rm1 - 1) a' (answers ?p1),
                    score := score ?p1 + 1\<rparr>)"
    by (simp add: participant_of_def put_participant_def update_conv')
  then have second: "participant_of (state_of (submitAnswer ?s1 sock c a')) c ?u =
          Some (p\<lparr>answers := AList.update (currentIndex rm - 1) a' (answers p),
                  score := score p + 2\<rparr>)"
    by simp
  from first second show ?thesis by blast
qed

theorem each_correct_submission_scores_witness:
  "participant_of started ''QZ-ABC123'' ''a1'' = Some \<lparr>name = ''Alice'', score = 0, answers = []\<rparr> \<and>
   participant_of (state_of (submitAnswer started alice ''QZ-ABC123'' 1)) ''QZ-ABC123'' ''a1'' =
     Some \<lparr>name = ''Alice'', score = 1, answers = [(0, 1)]\<rparr> \<and>
   participant_of (state_of (submitAnswer (state_of (submitAnswer started alice ''QZ-ABC123'' 1))
                                          alice ''QZ-ABC123'' 1)) ''QZ-ABC123'' ''a1'' =
     Some \<lparr>name = ''Alice'', score = 2, answers = [(0, 1)]\<rparr>"
proof -
  let ?rm = "demo_room\<lparr>currentIndex := 1,
                 participants := [(''a1'', \<lparr>name = ''Alice'', score = 0, answers = []\<rparr>)]\<rparr>"
  let ?p = "\<lparr>name = ''Alice'', score = 0, answers = []\<rparr>"
  have h1: "map_of (liveRooms started) ''QZ-ABC123'' = Some ?rm"
    by (simp add: started_def)
  have h2: "map_of (participants ?rm) (uid (user alice)) = Some ?p"
    by (simp add: alice_def)
  have h3: "at_index (questions (quiz ?rm)) (currentIndex ?rm - 1) = Some \<lparr>correct = [1]\<rparr>"
    by (simp add: demo_defs at_index_def)
  have h4: "(1::int) \<in> set (correct \<lparr>correct = [1]\<rparr>)" by simp
  have u: "uid (user alice) = ''a1''" by (simp add: alice_def)
  have p0: "participant_of started ''QZ-ABC123'' ''a1'' = Some ?p"
    by (simp add: participant_of_def started_def)
  from each_correct_submission_scores [OF h1 h2 h3 h4 h4] p0 show ?thesis
    by (simp add: u)
qed

text \<open>C1 as stated fails: after two submissions of the correct answer to question 0 the
  score is 2.\<close>

theorem second_correct_submission_counts_again:
  "participant_of started ''QZ-ABC123'' ''a1'' = Some \<lparr>name = ''Alice'', score = 0, answers = []\<rparr> \<and>
   at_index (questions (quiz demo_room)) 0 = Some \<lparr>correct = [1]\<rparr> \<and>
   participant_of (state_of (submitAnswer (state_of (submitAnswer started alice ''QZ-ABC123'' 1))
                                          alice ''QZ-ABC123'' 1)) ''QZ-ABC123'' ''a1'' =
     Some \<lparr>name = ''Alice'', score = 2, answers = [(0, 1)]\<rparr>"
  by (simp add: submitAnswer_def put_participant_def participant_of_def state_of_def Let_def
                started_def demo_defs js_defs)

section \<open>An answer before the first question\<close>

text \<open>
  C2 on the code. In the lobby \<^verbatim>\<open>currentIndex\<close> is 0, the handler reads
  \<^verbatim>\<open>questions[-1]\<close>, stores the answer under index \<open>-1\<close> in the participant's answers and
  then throws a \<^verbatim>\<open>TypeError\<close> on \<^verbatim>\<open>question.correct\<close>: the event is not dropped.
\<close>

theorem submitAnswer_in_lobby_throws:
  "run [CreateLive prof ''quiz-1'' (Snapshot (Some demo_quiz)) [''0.abc123xyz''],
        JoinLive alice ''QZ-ABC123''] empty_server =
     Some (joined,
           [(Callback 1, CallbackCode ''QZ-ABC123''), (SocketEmit 1, LiveCreated ''QZ-ABC123''),
            (SocketEmit 1, StudentJoined ''Alice'' 1),
            (SocketTo 2 ''QZ-ABC123'', StudentJoined ''Alice'' 1),
            (Callback 2, CallbackSuccess)]) \<and>
   map_of (liveRooms joined) ''QZ-ABC123'' =
     Some (demo_room\<lparr>participants := [(''a1'', \<lparr>name = ''Alice'', score = 0, answers = []\<rparr>)]\<rparr>) \<and>
   currentIndex (demo_room\<lparr>participants := [(''a1'', \<lparr>name = ''Alice'', score = 0, answers = []\<rparr>)]\<rparr>) = 0 \<and>
   at_index (questions (quiz demo_room)) (0 - 1) = None \<and>
   submitAnswer joined alice ''QZ-ABC123'' 1 =
     (joined\<lparr>liveRooms := [(''QZ-ABC123'',
         demo_room\<lparr>participants := [(''a1'', \<lparr>name = ''Alice'', score = 0, answers = [(- 1, 1)]\<rparr>)]\<rparr>)]\<rparr>,
      [], Some TypeError)"
  by (simp add: createLive_def joinLive_def submitAnswer_def put_participant_def Let_def
                joined_def demo_defs js_defs)

section \<open>Letter case of the code\<close>

text \<open>
  C4 on the code. Only \<^verbatim>\<open>joinLive\<close> upper-cases the code before the lookup. With the
  session registered under \<^verbatim>\<open>QZ-ABC123\<close>, \<^verbatim>\<open>joinLive\<close> with \<^verbatim>\<open>qz-abc123\<close> finds it, while
  \<^verbatim>\<open>submitAnswer\<close>, \<^verbatim>\<open>nextQuestion\<close> and \<^verbatim>\<open>endLive\<close> with \<^verbatim>\<open>qz-abc123\<close> find no session
  and do nothing, although the same calls with \<^verbatim>\<open>QZ-ABC123\<close> are carried out.
\<close>

theorem raw_code_lookup_outside_joinLive:
  "toUpperCase ''qz-abc123'' = ''QZ-ABC123'' \<and>
   sent (joinLive lobby alice ''qz-abc123'') =
     [(SocketEmit 1, StudentJoined ''Alice'' 1),
      (SocketTo 2 ''qz-abc123'', StudentJoined ''Alice'' 1),
      (Callback 2, CallbackSuccess)] \<and>
   submitAnswer started alice ''QZ-ABC123'' 1 \<noteq> (started, [], None) \<and>
   submitAnswer started alice ''qz-abc123'' 1 = (started, [], None) \<and>
   nextQuestion lobby prof ''QZ-ABC123'' \<noteq> (lobby, [], None) \<and>
   nextQuestion lobby prof ''qz-abc123'' = (lobby, [], None) \<and>
   endLive lobby prof ''QZ-ABC123'' \<noteq> (lobby, [], None) \<and>
   endLive lobby prof ''qz-abc123'' = (lobby, [], None)"
  by (simp add: joinLive_def submitAnswer_def nextQuestion_def endLive_def put_participant_def
                Let_def sent_def started_def demo_defs js_defs)

section \<open>The group a socket joins and the groups that are addressed\<close>






























end
